theory Spec2Isabelle
  imports Main "HOL-Library.AList"
begin

section \<open>Go string helpers used by the loader and the path deriver\<close>

text \<open>
  Go strings are byte sequences; they are modelled as \<open>string\<close> (a list of 8-bit
  characters). The functions below follow the Go standard library's \<open>strings\<close>
  package. Two restrictions are made explicit: case mapping is the ASCII one (bytes
  outside \<open>A-Z\<close> / \<open>a-z\<close> are left alone, so non-ASCII letters are not covered),
  and \<open>strSplit\<close> takes a one-byte separator, as every call site in the
  sources passes a one-character literal.
\<close>

definition hasPrefix :: "string \<Rightarrow> string \<Rightarrow> bool" where
  "hasPrefix s p \<longleftrightarrow> take (length p) s = p"

fun indexFrom :: "string \<Rightarrow> string \<Rightarrow> nat \<Rightarrow> int" where
  "indexFrom [] sub n = (if sub = [] then int n else - 1)"
| "indexFrom (c # cs) sub n =
     (if hasPrefix (c # cs) sub then int n else indexFrom cs sub (Suc n))"

definition strIndex :: "string \<Rightarrow> string \<Rightarrow> int" where
  "strIndex s sub = indexFrom s sub 0"

fun strSplit :: "string \<Rightarrow> char \<Rightarrow> string list" where
  "strSplit [] sep = [[]]"
| "strSplit (c # cs) sep =
     (if c = sep then [] # strSplit cs sep
      else (case strSplit cs sep of
              [] \<Rightarrow> [[c]]
            | p # ps \<Rightarrow> (c # p) # ps))"

text \<open>\<open>strings.Replace(s, old, new, 1)\<close>: only the first occurrence is replaced.\<close>

fun strReplace1 :: "string \<Rightarrow> string \<Rightarrow> string \<Rightarrow> string" where
  "strReplace1 [] old new = (if old = [] then new else [])"
| "strReplace1 (c # cs) old new =
     (if hasPrefix (c # cs) old then new @ drop (length old) (c # cs)
      else c # strReplace1 cs old new)"

definition toLowerByte :: "char \<Rightarrow> char" where
  "toLowerByte c =
     (case map_of (zip ''ABCDEFGHIJKLMNOPQRSTUVWXYZ'' ''abcdefghijklmnopqrstuvwxyz'') c of
        Some l \<Rightarrow> l
      | None \<Rightarrow> c)"

definition toUpperByte :: "char \<Rightarrow> char" where
  "toUpperByte c =
     (case map_of (zip ''abcdefghijklmnopqrstuvwxyz'' ''ABCDEFGHIJKLMNOPQRSTUVWXYZ'') c of
        Some u \<Rightarrow> u
      | None \<Rightarrow> c)"

definition toLower :: "string \<Rightarrow> string" where
  "toLower s = map toLowerByte s"

definition toUpper :: "string \<Rightarrow> string" where
  "toUpper s = map toUpperByte s"

definition strTrim :: "string \<Rightarrow> string \<Rightarrow> string" where
  "strTrim s cutset =
     rev (dropWhile (\<lambda>c. c \<in> set cutset) (rev (dropWhile (\<lambda>c. c \<in> set cutset) s)))"

definition trimPrefix :: "string \<Rightarrow> string \<Rightarrow> string" where
  "trimPrefix s p = (if hasPrefix s p then drop (length p) s else s)"

text \<open>\<open>strings.TrimSpace\<close> on the ASCII white space bytes (tab, LF, VT, FF, CR, space).\<close>

definition asciiSpace :: "string" where
  "asciiSpace = [CHR 0x09, CHR 0x0A, CHR 0x0B, CHR 0x0C, CHR 0x0D, CHR 0x20]"

definition trimSpace :: "string \<Rightarrow> string" where
  "trimSpace s = strTrim s asciiSpace"

fun strJoin :: "string list \<Rightarrow> string \<Rightarrow> string" where
  "strJoin [] sep = []"
| "strJoin [x] sep = x"
| "strJoin (x # y # ys) sep = x @ sep @ strJoin (y # ys) sep"

section \<open>strconv: Atoi and ParseBool\<close>

text \<open>
  \<open>strconv.Atoi\<close> accepts an optional sign followed by one or more decimal digits and
  fails when the number does not fit the platform's \<open>int\<close>, taken here to be 64 bits
  wide. \<open>strconv.ParseBool\<close> accepts exactly twelve spellings. A failure of either is
  \<open>None\<close>.
\<close>

definition isDigit :: "char \<Rightarrow> bool" where
  "isDigit c \<longleftrightarrow> c \<in> set ''0123456789''"

definition digitVal :: "char \<Rightarrow> int" where
  "digitVal c =
     (case map_of (zip ''0123456789'' [0, 1, 2, 3, 4, 5, 6, 7, 8, 9]) c of
        Some d \<Rightarrow> d
      | None \<Rightarrow> 0)"

fun decimalValue :: "string \<Rightarrow> int \<Rightarrow> int" where
  "decimalValue [] n = n"
| "decimalValue (c # cs) n = decimalValue cs (n * 10 + digitVal c)"

definition Atoi :: "string \<Rightarrow> int option" where
  "Atoi s =
     (case s of
        [] \<Rightarrow> None
      | c # cs \<Rightarrow>
          (let ds = (if c = CHR ''-'' \<or> c = CHR ''+'' then cs else s) in
           if ds = [] \<or> \<not> list_all isDigit ds then None
           else
             (let n = decimalValue ds 0;
                  v = (if c = CHR ''-'' then - n else n)
              in if - (2 ^ 63) \<le> v \<and> v < 2 ^ 63 then Some v else None)))"

definition ParseBool :: "string \<Rightarrow> bool option" where
  "ParseBool str =
     (if str \<in> set [''1'', ''t'', ''T'', ''TRUE'', ''true'', ''True''] then Some True
      else if str \<in> set [''0'', ''f'', ''F'', ''FALSE'', ''false'', ''False''] then Some False
      else None)"

section \<open>The configuration tree\<close>

text \<open>
  A \<open>map[string]any\<close> is an association list with pairwise distinct keys; the order of
  the list stands for the order in which a \<open>range\<close> loop visits the keys, which Go
  leaves unspecified, so a statement for all lists covers every iteration order.
  The dynamic values (\<open>any\<close>) are integers, booleans, strings, YAML null, YAML
  sequences and nested maps. The YAML decoder delivers a nested mapping whose keys
  are all strings as a \<open>map[string]any\<close>, here \<open>MapV\<close>, and a nested mapping
  with a key that is not a string as a \<open>map[any]any\<close>, here \<open>AnyMapV\<close>. The type
  assertion \<open>.(map[string]any)\<close> succeeds on the first kind only, which is what
  \<open>isMap\<close> tells.
\<close>

datatype val =
    IntV int
  | BoolV bool
  | StrV string
  | NullV
  | SeqV "val list"
  | MapV "(string \<times> val) list"
  | AnyMapV "(val \<times> val) list"

type_synonym cfg = "(string \<times> val) list"

fun isMap :: "val \<Rightarrow> bool" where
  "isMap (MapV m) = True"
| "isMap v = False"

text \<open>
  Failures are values. A returned \<open>error\<close> is \<open>NotAMap k p\<close>, built by
  \<open>errors.Errorf("%s of %s is not a map[string]any", k, p)\<close>, or \<open>External msg\<close>, a
  failure reported by the file system or the YAML library, or \<open>Wrap e msg\<close>, the
  result of \<open>errors.Wrap\<close>. A Go panic (failed type assertion, slice bound out of
  range, index out of range, nil dereference) ends the call of every function on the
  stack and is never wrapped: it is a failure of its own kind, so a panicking path is
  a branch of the model.
\<close>

datatype panic =
    TypeAssertionPanic
  | SliceBoundsPanic
  | IndexPanic
  | NilDereferencePanic

datatype error =
    NotAMap string cfg
  | External string
  | Wrap error string

datatype failure =
    Panic panic
  | Error error

fun wrapFailure :: "failure \<Rightarrow> string \<Rightarrow> failure" where
  "wrapFailure (Panic p) msg = Panic p"
| "wrapFailure (Error e) msg = Error (Wrap e msg)"

section \<open>The loader: environment scan\<close>

text \<open>
  \<open>parseEnvConfig\<close> mutates \<open>curCfg\<close> in place and returns nothing; the model returns
  the updated map. The type assertion \<open>curCfg[thisKey].(map[string]any)\<close> panics when
  the entry is not a map.
\<close>

function parseEnvConfig :: "cfg \<Rightarrow> string \<Rightarrow> string \<Rightarrow> failure + cfg" where
  "parseEnvConfig curCfg key value =
     (if strIndex key ''_'' = - 1 then
        (case Atoi value of
           Some intVal \<Rightarrow> Inr (AList.update key (IntV intVal) curCfg)
         | None \<Rightarrow>
             (case ParseBool value of
                Some boolVal \<Rightarrow> Inr (AList.update key (BoolV boolVal) curCfg)
              | None \<Rightarrow> Inr (AList.update key (StrV value) curCfg)))
      else
        (let thisKey = take (nat (strIndex key ''_'')) key;
             curCfg1 = (if map_of curCfg thisKey = None
                        then AList.update thisKey (MapV []) curCfg else curCfg)
         in case map_of curCfg1 thisKey of
              Some (MapV sub) \<Rightarrow>
                (case parseEnvConfig sub (drop (nat (strIndex key ''_'') + 1) key) value of
                   Inl e \<Rightarrow> Inl e
                 | Inr sub' \<Rightarrow> Inr (AList.update thisKey (MapV sub') curCfg1))
            | _ \<Rightarrow> Inl (Panic TypeAssertionPanic)))"
  by pat_completeness auto
termination
proof (relation "measure (\<lambda>(c, key, v). length key)")
  show "wf (measure (\<lambda>(c, key, v). length key))" by simp
next
  fix curCfg :: cfg and key "value" :: string and x xa x2 x6
  assume "strIndex key ''_'' \<noteq> - 1"
  then have "key \<noteq> []" by (auto simp: strIndex_def)
  then show "((x6, drop (nat (strIndex key ''_'') + 1) key, value), curCfg, key, value)
             \<in> measure (\<lambda>(c, key, v). length key)"
    by simp
qed

declare parseEnvConfig.simps [simp del]

text \<open>
  The key computed for one environment entry \<open>v\<close> (lines 101 and 103 of the loader):
  the part of \<open>v\<close> before the first \<open>=\<close>, with the first occurrence of the prefix
  removed, lower-cased.
\<close>

definition envKey :: "string \<Rightarrow> string \<Rightarrow> failure + string" where
  "envKey prefix v =
     (case strSplit v (CHR ''='') of
        [] \<Rightarrow> Inl (Panic IndexPanic)
      | key # _ \<Rightarrow> Inr (toLower (strReplace1 key prefix [])))"

text \<open>
  The value of the entry is \<open>v[len(key)+1:]\<close>, which panics when \<open>v\<close> holds no \<open>=\<close>.
\<close>

definition envValue :: "string \<Rightarrow> failure + string" where
  "envValue v =
     (case strSplit v (CHR ''='') of
        [] \<Rightarrow> Inl (Panic IndexPanic)
      | key # _ \<Rightarrow>
          (if length v < length key + 1 then Inl (Panic SliceBoundsPanic)
           else Inr (drop (length key + 1) v)))"

fun readFromConfigEnvLoop :: "string \<Rightarrow> cfg \<Rightarrow> string list \<Rightarrow> failure + cfg" where
  "readFromConfigEnvLoop prefix envCfg [] = Inr envCfg"
| "readFromConfigEnvLoop prefix envCfg (v # vs) =
     (if hasPrefix v prefix then
        (case envValue v of
           Inl e \<Rightarrow> Inl e
         | Inr value \<Rightarrow>
             (case envKey prefix v of
                Inl e \<Rightarrow> Inl e
              | Inr key \<Rightarrow>
                  (case parseEnvConfig envCfg key value of
                     Inl e \<Rightarrow> Inl e
                   | Inr envCfg' \<Rightarrow> readFromConfigEnvLoop prefix envCfg' vs)))
      else readFromConfigEnvLoop prefix envCfg vs)"

text \<open>\<open>environ\<close> is the list returned by \<open>os.Environ()\<close>, entries of the form \<open>KEY=VALUE\<close>.\<close>

definition readFromConfigEnv :: "string list \<Rightarrow> string \<Rightarrow> failure + cfg" where
  "readFromConfigEnv environ prefix = readFromConfigEnvLoop prefix [] environ"

section \<open>The loader: merge\<close>

text \<open>
  \<open>patchMap o p\<close> merges \<open>p\<close> into \<open>o\<close> in place. \<open>patchLoop o p rest\<close> is the state of
  its \<open>range\<close> loop with the entries \<open>rest\<close> of \<open>p\<close> still to visit; the whole of \<open>p\<close>
  is kept because the error message prints it. On an error the Go code returns with
  \<open>o\<close> partly updated; its only caller then drops the map, and the model returns the
  error alone. After \<open>o[k] = p[k]\<close> a nested map of \<open>p\<close> is shared with \<open>o\<close>; no key
  is visited twice, so nothing is written through the shared map afterwards.
\<close>

function patchLoop :: "cfg \<Rightarrow> cfg \<Rightarrow> cfg \<Rightarrow> failure + cfg" where
  "patchLoop ob p [] = Inr ob"
| "patchLoop ob p ((k, v) # rest) =
     (case map_of ob k of
        Some (MapV om) \<Rightarrow>
          (case v of
             MapV pm \<Rightarrow>
               (case patchLoop om pm pm of
                  Inl e \<Rightarrow> Inl e
                | Inr om' \<Rightarrow> patchLoop (AList.update k (MapV om') ob) p rest)
           | _ \<Rightarrow> Inl (Error (NotAMap k p)))
      | Some _ \<Rightarrow> patchLoop (AList.update k v ob) p rest
      | None \<Rightarrow> patchLoop (AList.update k v ob) p rest)"
  by pat_completeness auto
termination
  by (relation "measure (\<lambda>(ob, p, rest). size_list (size_prod (\<lambda>_. 0) size) rest)") auto

definition patchMap :: "cfg \<Rightarrow> cfg \<Rightarrow> failure + cfg" where
  "patchMap ob p = patchLoop ob p p"

definition patchConfigMap :: "cfg \<Rightarrow> cfg \<Rightarrow> failure + cfg" where
  "patchConfigMap patch base =
     (case patchMap base patch of
        Inl e \<Rightarrow> Inl (wrapFailure e ''failed to patch to config file'')
      | Inr base' \<Rightarrow> Inr base')"

text \<open>
  \<open>readFile\<close> stands for \<open>readFromConfigFile\<close> (file system and YAML parser), which
  returns a map or an error. The result is the merged map that the Go code hands to
  \<open>yaml.Marshal\<close>.
\<close>

definition readConfigFromPathAndEnv ::
  "(string \<Rightarrow> error + cfg) \<Rightarrow> string list \<Rightarrow> string \<Rightarrow> string \<Rightarrow> failure + cfg" where
  "readConfigFromPathAndEnv readFile environ prefix configPath =
     (case (if length configPath \<noteq> 0
            then (case readFile configPath of
                    Inl e \<Rightarrow> Inl (Error (Wrap e (''failed to read config from '' @ configPath)))
                  | Inr c \<Rightarrow> Inr c)
            else Inr []) of
        Inl e \<Rightarrow> Inl e
      | Inr config \<Rightarrow>
          (case readFromConfigEnv environ prefix of
             Inl e \<Rightarrow> Inl e
           | Inr configEnv \<Rightarrow>
               (case patchConfigMap configEnv config of
                  Inl e \<Rightarrow> Inl (wrapFailure e ''failed to patch config env to config file'')
                | Inr config' \<Rightarrow> Inr config')))"

text \<open>
  \<open>FetchConfig\<close> up to the decoding into the caller's struct, which is the YAML
  library's work: the default prefix, the merge, the wrapping of the error.
\<close>

definition FetchConfig ::
  "(string \<Rightarrow> error + cfg) \<Rightarrow> string list \<Rightarrow> string \<Rightarrow> string \<Rightarrow> failure + cfg" where
  "FetchConfig readFile environ configPath envPrefix =
     (let prefix = (if length envPrefix \<noteq> 0 then envPrefix else ''CFG'') in
      case readConfigFromPathAndEnv readFile environ prefix configPath of
        Inl e \<Rightarrow> Inl (wrapFailure e ''failed to read and patch config'')
      | Inr merged \<Rightarrow> Inr merged)"

text \<open>Reading a value along a path of keys, as the decoder does for nested fields.\<close>

fun lookupPath :: "cfg \<Rightarrow> string list \<Rightarrow> val option" where
  "lookupPath c [] = None"
| "lookupPath c [k] = map_of c k"
| "lookupPath c (k # k' # ks) =
     (case map_of c k of
        Some (MapV sub) \<Rightarrow> lookupPath sub (k' # ks)
      | _ \<Rightarrow> None)"

text \<open>
  The coercion of an environment value as the specification words it: the integer
  when the whole value parses as a base-10 integer, else the boolean when it parses
  as a boolean, else the string itself. It is compared with what \<open>parseEnvConfig\<close>
  stores.
\<close>

definition specCoerce :: "string \<Rightarrow> val" where
  "specCoerce value =
     (case Atoi value of
        Some i \<Rightarrow> IntV i
      | None \<Rightarrow> (case ParseBool value of Some b \<Rightarrow> BoolV b | None \<Rightarrow> StrV value))"

text \<open>
  The words of the merge rules, for a base (file) map \<open>ob\<close>, an overlay (environment)
  map \<open>p\<close> and a path of keys. A scalar is an integer, a boolean, a string or null.
  \<open>conflictAt ob p path\<close>: both sides hold string-keyed mappings at every key of the
  path but the last, and at the last key the base holds a string-keyed mapping while
  the overlay holds something that is not one. \<open>overlayLevel p path\<close> is the overlay
  mapping in which the last key of the path is looked up. \<open>insertedAt ob p path v\<close>:
  the overlay holds \<open>v\<close> at the path, below keys where both sides hold string-keyed
  mappings, and either the base lacks the key where the two part, or both sides hold
  scalars at the last key. \<open>uniqueKeys p\<close>: no mapping of the overlay, at any depth,
  lists a key twice, as in a Go map.
\<close>

fun isScalar :: "val \<Rightarrow> bool" where
  "isScalar (IntV i) = True"
| "isScalar (BoolV b) = True"
| "isScalar (StrV s) = True"
| "isScalar NullV = True"
| "isScalar v = False"

fun conflictAt :: "cfg \<Rightarrow> cfg \<Rightarrow> string list \<Rightarrow> bool" where
  "conflictAt ob p [] = False"
| "conflictAt ob p [k] =
     (case map_of ob k of
        Some (MapV om) \<Rightarrow> (case map_of p k of Some v \<Rightarrow> \<not> isMap v | None \<Rightarrow> False)
      | _ \<Rightarrow> False)"
| "conflictAt ob p (k # k' # ks) =
     (case map_of ob k of
        Some (MapV om) \<Rightarrow>
          (case map_of p k of
             Some (MapV pm) \<Rightarrow> conflictAt om pm (k' # ks)
           | _ \<Rightarrow> False)
      | _ \<Rightarrow> False)"

fun overlayLevel :: "cfg \<Rightarrow> string list \<Rightarrow> cfg" where
  "overlayLevel p [] = p"
| "overlayLevel p [k] = p"
| "overlayLevel p (k # k' # ks) =
     (case map_of p k of
        Some (MapV pm) \<Rightarrow> overlayLevel pm (k' # ks)
      | _ \<Rightarrow> [])"

fun insertedAt :: "cfg \<Rightarrow> cfg \<Rightarrow> string list \<Rightarrow> val \<Rightarrow> bool" where
  "insertedAt ob p [] v = False"
| "insertedAt ob p [k] v =
     (map_of p k = Some v \<and>
      (case map_of ob k of
         None \<Rightarrow> True
       | Some s \<Rightarrow> isScalar s \<and> isScalar v))"
| "insertedAt ob p (k # k' # ks) v =
     (case map_of p k of
        Some (MapV pm) \<Rightarrow>
          (case map_of ob k of
             None \<Rightarrow> lookupPath pm (k' # ks) = Some v
           | Some (MapV om) \<Rightarrow> insertedAt om pm (k' # ks) v
           | Some _ \<Rightarrow> False)
      | _ \<Rightarrow> False)"

fun uniqueKeysV :: "val \<Rightarrow> bool"
and uniqueKeysL :: "cfg \<Rightarrow> bool"
where
  "uniqueKeysV (MapV m) = (distinct (map fst m) \<and> uniqueKeysL m)"
| "uniqueKeysV v = True"
| "uniqueKeysL [] = True"
| "uniqueKeysL ((k, v) # rest) = (uniqueKeysV v \<and> uniqueKeysL rest)"

definition uniqueKeys :: "cfg \<Rightarrow> bool" where
  "uniqueKeys p \<longleftrightarrow> uniqueKeysV (MapV p)"

section \<open>The path deriver\<close>

text \<open>
  The part of \<open>go/ast\<close> the deriver reads. An identifier carries its name and its
  \<open>Obj\<close>: \<open>None\<close> for a nil object, otherwise the object's declaration, a type
  specification (with the declared type) or anything else. Inlining the declaration
  makes every type description a finite tree: a struct type that refers to itself
  is not representable. \<open>OtherExpr t\<close> is any other expression node (array, map,
  function type, ...), \<open>t\<close> being its Go type name as \<open>%T\<close> prints it. A field has
  its \<open>Doc\<close> (nil or the texts of its comment lines), its \<open>Names\<close>, its \<open>Type\<close> and
  its \<open>Tag\<close> (nil or the literal's source text, back quotes included).
\<close>

datatype expr =
    Ident string "decl option"
  | StarExpr expr
  | SelectorExpr expr string
  | StructType "astField list"
  | OtherExpr string
and decl =
    TypeSpec expr
  | OtherDecl
and astField =
    AstField "string list option" "string list" expr "string option"

record Field =
  Name :: string
  Type :: string
  Comment :: string

record EnvVar =
  Chain :: "Field list"

text \<open>The package variable \<open>prefix\<close> (the \<open>-prefix\<close> flag) is a parameter.\<close>

definition Path :: "string \<Rightarrow> EnvVar \<Rightarrow> string" where
  "Path prefix e =
     toUpper (strJoin ((if prefix \<noteq> [] then [prefix] else []) @ map Name (Chain e)) ''_'')"

definition YAMLPath :: "EnvVar \<Rightarrow> string" where
  "YAMLPath e = strJoin (map Name (Chain e)) ''.''"

definition LastField :: "EnvVar \<Rightarrow> Field" where
  "LastField e =
     (if length (Chain e) = 0 then \<lparr>Name = [], Type = [], Comment = []\<rparr>
      else last (Chain e))"

definition isPrimitiveType :: "string \<Rightarrow> bool" where
  "isPrimitiveType typeStr \<longleftrightarrow>
     (case map_of [(''string'', True), (''int'', True), (''bool'', True)]
             (trimPrefix typeStr ''*'') of
        Some b \<Rightarrow> b
      | None \<Rightarrow> False)"

text \<open>Indexing a slice panics out of range.\<close>

definition goIndex :: "'a list \<Rightarrow> nat \<Rightarrow> failure + 'a" where
  "goIndex xs i = (if i < length xs then Inr (xs ! i) else Inl (Panic IndexPanic))"

fun getYAMLTagLoop :: "string list \<Rightarrow> failure + string" where
  "getYAMLTagLoop [] = Inr []"
| "getYAMLTagLoop (tagPart # rest) =
     (if hasPrefix tagPart ''yaml:'' then
        (case goIndex (strSplit tagPart (CHR '':'')) 1 of
           Inl e \<Rightarrow> Inl e
         | Inr quoted \<Rightarrow> goIndex (strSplit (strTrim quoted [CHR 0x22]) (CHR '','')) 0)
      else getYAMLTagLoop rest)"

definition getYAMLTag :: "string \<Rightarrow> failure + string" where
  "getYAMLTag tag =
     (if tag = [] then Inr []
      else getYAMLTagLoop (strSplit (strTrim tag ''`'') (CHR '' '')))"

fun getTypeString :: "expr \<Rightarrow> failure + string" where
  "getTypeString (Ident name obj) = Inr name"
| "getTypeString (StarExpr x) =
     (case getTypeString x of Inl e \<Rightarrow> Inl e | Inr s \<Rightarrow> Inr (''*'' @ s))"
| "getTypeString (SelectorExpr x sel) =
     (case x of
        Ident name obj \<Rightarrow> Inr (name @ ''.'' @ sel)
      | _ \<Rightarrow> Inl (Panic TypeAssertionPanic))"
| "getTypeString (StructType flds) = Inr ''*ast.StructType''"
| "getTypeString (OtherExpr t) = Inr t"

definition fieldComment :: "string list option \<Rightarrow> string" where
  "fieldComment doc =
     (case doc of
        None \<Rightarrow> []
      | Some texts \<Rightarrow> strJoin (map (\<lambda>c. trimSpace (trimPrefix c ''//'')) texts) '' '')"

text \<open>
  \<open>processStructFields\<close> and \<open>processField\<close> append to \<open>*vars\<close>; the model passes the
  list and returns it extended. \<open>processFields\<close> is the loop over \<open>Fields.List\<close>.
  In \<open>processField\<close>, \<open>field.Tag.Value\<close> dereferences \<open>field.Tag\<close>, which is nil for a
  field written without a tag.
\<close>

fun processStructFields :: "expr \<Rightarrow> Field list \<Rightarrow> EnvVar list \<Rightarrow> failure + EnvVar list"
and processFields :: "astField list \<Rightarrow> Field list \<Rightarrow> EnvVar list \<Rightarrow> failure + EnvVar list"
and processField :: "astField \<Rightarrow> Field list \<Rightarrow> EnvVar list \<Rightarrow> failure + EnvVar list"
where
  "processStructFields (Ident name obj) chain vars =
     (if isPrimitiveType name then Inr (vars @ [\<lparr>Chain = chain\<rparr>])
      else
        (case obj of
           Some (TypeSpec (StructType flds)) \<Rightarrow> processFields flds chain vars
         | _ \<Rightarrow> Inr vars))"
| "processStructFields (StarExpr x) chain vars =
     (case getTypeString x of
        Inl e \<Rightarrow> Inl e
      | Inr s \<Rightarrow>
          (if isPrimitiveType s then Inr (vars @ [\<lparr>Chain = chain\<rparr>])
           else processStructFields x chain vars))"
| "processStructFields (SelectorExpr x sel) chain vars = Inr (vars @ [\<lparr>Chain = chain\<rparr>])"
| "processStructFields (StructType flds) chain vars = processFields flds chain vars"
| "processStructFields (OtherExpr t) chain vars = Inr vars"
| "processFields [] chain vars = Inr vars"
| "processFields (f # fs) chain vars =
     (case processField f chain vars of
        Inl e \<Rightarrow> Inl e
      | Inr vars' \<Rightarrow> processFields fs chain vars')"
| "processField (AstField doc names ty tag) parentChain vars =
     (if names = [] then processStructFields ty parentChain vars
      else
        (case tag of
           None \<Rightarrow> Inl (Panic NilDereferencePanic)
         | Some tagValue \<Rightarrow>
             (case getYAMLTag tagValue of
                Inl e \<Rightarrow> Inl e
              | Inr yamlTag \<Rightarrow>
                  (let fieldName = (if yamlTag = [] then toLower (hd names) else yamlTag) in
                   case getTypeString ty of
                     Inl e \<Rightarrow> Inl e
                   | Inr tyStr \<Rightarrow>
                       processStructFields ty
                         (parentChain @
                            [\<lparr>Name = fieldName, Type = tyStr, Comment = fieldComment doc\<rparr>])
                         vars))))"

text \<open>The loop of \<open>main\<close> over the fields of the configuration struct.\<close>

definition deriveVars :: "astField list \<Rightarrow> failure + EnvVar list" where
  "deriveVars flds = processFields flds [] []"

definition getEnvExampleValue :: "string \<Rightarrow> string" where
  "getEnvExampleValue fieldType =
     (let baseType = trimPrefix fieldType ''*'' in
      if baseType = ''string'' then ''string''
      else if hasPrefix baseType ''int'' \<or> hasPrefix baseType ''uint'' then ''integer''
      else if hasPrefix baseType ''float'' then ''number''
      else if baseType = ''bool'' then ''true/false''
      else ''string'')"

text \<open>
  The sample declarations of the repository's test data: \<open>Database\<close>, \<open>Cache\<close> and
  \<open>Config\<close>, as the parser delivers them (tags with their back quotes, doc comments
  with their slashes, identifiers of declared types resolved to their declaration).
\<close>

definition DatabaseStruct :: expr where
  \<open>DatabaseStruct = StructType
     [AstField (Some [''// Host is the database server hostname'']) [''Host'']
        (Ident ''string'' None) (Some ''`yaml:"host,omitempty"`''),
      AstField (Some [''// Port is the database server port number'']) [''Port'']
        (Ident ''int'' None) (Some ''`yaml:"port"`'')]\<close>

definition CacheStruct :: expr where
  "CacheStruct = StructType []"

definition ConfigFields :: "astField list" where
  \<open>ConfigFields =
     [AstField (Some [''// Database configuration section'']) [''Database'']
        (Ident ''Database'' (Some (TypeSpec DatabaseStruct))) (Some ''`yaml:"database"`''),
      AstField None [''Port''] (Ident ''int'' None) (Some ''`yaml:"port"`''),
      AstField None [''Cache'']
        (StarExpr (Ident ''Cache'' (Some (TypeSpec CacheStruct)))) (Some ''`yaml:"cache"`'')]\<close>

section \<open>Evaluation facts\<close>

lemmas string_eval =
  hasPrefix_def strIndex_def toLower_def toLowerByte_def toUpper_def toUpperByte_def
  strTrim_def trimPrefix_def trimSpace_def asciiSpace_def

lemmas loader_eval =
  readConfigFromPathAndEnv_def patchConfigMap_def patchMap_def readFromConfigEnv_def
  envValue_def envKey_def parseEnvConfig.simps Atoi_def ParseBool_def isDigit_def digitVal_def

lemmas deriver_eval =
  deriveVars_def ConfigFields_def DatabaseStruct_def CacheStruct_def getYAMLTag_def
  goIndex_def isPrimitiveType_def fieldComment_def Path_def YAMLPath_def Let_def

section \<open>The environment scan keeps the separator after the prefix\<close>

lemma strSplit_no_sep: "sep \<notin> set s \<Longrightarrow> strSplit (s @ sep # t) sep = s # strSplit t sep"
  by (induction s) auto

lemma strReplace1_prefix: "strReplace1 (p @ r) p [] = r"
proof (cases "p @ r")
  case Nil
  then show ?thesis by simp
next
  case (Cons a list)
  have "hasPrefix (p @ r) p" by (simp add: hasPrefix_def)
  then have h: "hasPrefix (a # list) p" using Cons by simp
  have e: "strReplace1 (a # list) p [] = drop (length p) (a # list)" using h by simp
  have "drop (length p) (p @ r) = r" by simp
  then have "drop (length p) (a # list) = r" by (simp only: Cons)
  with e show ?thesis by (simp only: Cons)
qed

text \<open>
  For a variable whose name is the prefix followed by \<open>rest\<close>, the key handed to
  \<open>parseEnvConfig\<close> is \<open>rest\<close> lower-cased: the prefix is removed and nothing else, so
  a separator that follows the prefix stays at the head of the key.
\<close>

lemma envKey_prefix_only:
  "CHR ''='' \<notin> set (prefix @ rest) \<Longrightarrow>
   envKey prefix (prefix @ rest @ CHR ''='' # value) = Inr (toLower rest)"
  using strSplit_no_sep [of "CHR ''=''" "prefix @ rest" "value"]
  by (simp add: envKey_def strReplace1_prefix)

text \<open>
  C2. The claim: for a variable \<open>KEY=VALUE\<close> whose \<open>KEY\<close> starts with the prefix, the
  key that starts the path construction is \<open>KEY\<close> without the prefix and without the
  one separator that follows it, lower-cased; for prefix \<open>P\<close> and variable \<open>P_A_B\<close>
  it is \<open>a_b\<close>. The code removes the prefix only: at prefix \<open>P\<close> and entry
  \<open>P_A_B=1\<close> the key is \<open>_a_b\<close>, the leading separator still there, and the scan
  files the value under the empty key, then \<open>a\<close>, then \<open>b\<close>.
\<close>

theorem envKey_keeps_leading_separator:
  "envKey ''P'' ''P_A_B=1'' = Inr ''_a_b'' \<and>
   readFromConfigEnv [''P_A_B=1''] ''P'' = Inr [([], MapV [(''a'', MapV [(''b'', IntV 1)])])]"
  by (simp add: loader_eval string_eval)

text \<open>
  C1. The claim: with the file mapping \<open>{a: {b: 1}}\<close>, the prefix \<open>PREFIX\<close> and the
  environment entry \<open>PREFIX_A_B=2\<close>, the merged result has \<open>a.b = 2\<close>. On the code the
  environment value lands under the empty top-level key (the separator after the prefix
  is kept), the file's \<open>a.b\<close> stays \<open>1\<close>, and the same happens through \<open>FetchConfig\<close>.
\<close>

theorem merge_precedence_lost_with_plain_prefix:
  "readConfigFromPathAndEnv (\<lambda>path. Inr [(''a'', MapV [(''b'', IntV 1)])])
       [''PREFIX_A_B=2''] ''PREFIX'' ''conf.yaml''
     = Inr [(''a'', MapV [(''b'', IntV 1)]), ([], MapV [(''a'', MapV [(''b'', IntV 2)])])] \<and>
   lookupPath [(''a'', MapV [(''b'', IntV 1)]), ([], MapV [(''a'', MapV [(''b'', IntV 2)])])]
       [''a'', ''b''] = Some (IntV 1) \<and>
   FetchConfig (\<lambda>path. Inr [(''a'', MapV [(''b'', IntV 1)])])
       [''PREFIX_A_B=2''] ''conf.yaml'' ''PREFIX''
     = Inr [(''a'', MapV [(''b'', IntV 1)]), ([], MapV [(''a'', MapV [(''b'', IntV 2)])])]"
  by (simp add: FetchConfig_def loader_eval string_eval)

text \<open>
  When the caller writes the separator into the prefix (\<open>PREFIX_\<close>), the merge gives the
  environment the precedence, and the leaves it does not name keep their file values.
\<close>

lemma merge_precedence_with_separator_in_prefix:
  "readConfigFromPathAndEnv (\<lambda>path. Inr [(''a'', MapV [(''b'', IntV 1), (''c'', IntV 2)])])
       [''PREFIX_A_B=9''] ''PREFIX_'' ''conf.yaml''
     = Inr [(''a'', MapV [(''b'', IntV 9), (''c'', IntV 2)])]"
  by (simp add: loader_eval string_eval)

section \<open>A scalar on the path of a later variable\<close>

text \<open>
  C10. There is an environment for which the scan panics on the type assertion of
  \<open>parseEnvConfig\<close> instead of returning an error: \<open>CFG_A=1\<close> followed by
  \<open>CFG_A_B=2\<close>, under the prefix \<open>CFG\<close>. The first entry stores the integer 1 at
  \<open>a\<close> (below the empty key); the second finds it where it needs a map.
\<close>

theorem readFromConfigEnv_panics_on_scalar_then_subtree:
  "readFromConfigEnv [''CFG_A=1'', ''CFG_A_B=2''] ''CFG'' = Inl (Panic TypeAssertionPanic) \<and>
   readFromConfigEnv [''CFG_A=1''] ''CFG'' = Inr [([], MapV [(''a'', IntV 1)])] \<and>
   FetchConfig (\<lambda>path. Inr []) [''CFG_A=1'', ''CFG_A_B=2''] [] [] = Inl (Panic TypeAssertionPanic)"
  by (simp add: FetchConfig_def loader_eval string_eval)

section \<open>The empty overlay\<close>

text \<open>
  C9. Merging an empty environment overlay into any file-derived mapping returns
  without error and leaves the mapping as it was, through \<open>patchMap\<close> and through its
  wrapper \<open>patchConfigMap\<close>.
\<close>

theorem patchMap_empty_overlay:
  "patchMap base [] = Inr base \<and> patchConfigMap [] base = Inr base"
  by (simp add: patchConfigMap_def patchMap_def)

section \<open>The path deriver on the sample struct\<close>

text \<open>
  C6. For the sample \<open>Config\<close> (a \<open>Database\<close> struct with \<open>Host\<close> and \<open>Port\<close>, a
  \<open>Port\<close>, and a pointer to the empty struct \<open>Cache\<close>) and the prefix \<open>MYAPP\<close>, the
  deriver returns three variables whose paths are \<open>MYAPP_DATABASE_HOST\<close>,
  \<open>MYAPP_DATABASE_PORT\<close> and \<open>MYAPP_PORT\<close>, in this order; nothing stands for
  \<open>Cache\<close>.
\<close>

theorem deriveVars_sample_config:
  "\<exists>vars. deriveVars ConfigFields = Inr vars \<and>
     map (Path ''MYAPP'') vars = [''MYAPP_DATABASE_HOST'', ''MYAPP_DATABASE_PORT'', ''MYAPP_PORT''] \<and>
     map YAMLPath vars = [''database.host'', ''database.port'', ''port'']"
  by (simp add: deriver_eval string_eval)

section \<open>A field without a tag\<close>

text \<open>
  C5. The claim: for a named field, with or without a tag, the segment is the yaml
  tag's first comma-separated component when there is one and the lower-cased field
  name otherwise, and the operation completes in both cases. On the code a named
  field without a tag has a nil \<open>Tag\<close>, and reading \<open>field.Tag.Value\<close> panics before
  the fallback to the lower-cased name is reached: for \<open>Port int\<close> nothing is emitted.
  With a tag that holds no yaml key the fallback works.
\<close>

theorem processField_untagged_panics:
  \<open>processField (AstField None [''Port''] (Ident ''int'' None) None) [] []
     = Inl (Panic NilDereferencePanic) \<and>
   deriveVars [AstField None [''Port''] (Ident ''int'' None) None]
     = Inl (Panic NilDereferencePanic) \<and>
   processField (AstField None [''Port''] (Ident ''int'' None) (Some ''`json:"p"`'')) [] []
     = Inr [\<lparr>Chain = [\<lparr>Name = ''port'', Type = ''int'', Comment = []\<rparr>]\<rparr>]\<close>
  by (simp add: deriver_eval string_eval)

section \<open>Splitting a key at its first underscore\<close>

lemma indexFrom_absent: "c \<notin> set s \<Longrightarrow> indexFrom s [c] n = - 1"
  by (induction s arbitrary: n) (auto simp: hasPrefix_def)

lemma indexFrom_first: "c \<notin> set k \<Longrightarrow> indexFrom (k @ c # rest) [c] n = int (n + length k)"
  by (induction k arbitrary: n) (auto simp: hasPrefix_def)

lemma strIndex_absent: "CHR ''_'' \<notin> set key \<Longrightarrow> strIndex key ''_'' = - 1"
  by (simp add: strIndex_def indexFrom_absent)

lemma strIndex_first:
  "CHR ''_'' \<notin> set k \<Longrightarrow> strIndex (k @ CHR ''_'' # rest) ''_'' = int (length k)"
  by (simp add: strIndex_def indexFrom_first)

lemma strSplit_absent: "sep \<notin> set s \<Longrightarrow> strSplit s sep = [s]"
  by (induction s) auto

lemma strSplit_nonempty: "strSplit s sep \<noteq> []"
  by (induction s) (auto split: list.splits)

lemma parseEnvConfig_leaf:
  assumes "CHR ''_'' \<notin> set key"
  shows "parseEnvConfig curCfg key value = Inr (AList.update key (specCoerce value) curCfg)"
  using strIndex_absent [OF assms]
  by (simp add: parseEnvConfig.simps specCoerce_def split: option.splits)

lemma parseEnvConfig_node:
  assumes "CHR ''_'' \<notin> set k"
  shows "parseEnvConfig curCfg (k @ CHR ''_'' # rest) value =
     (case map_of curCfg k of
        None \<Rightarrow>
          (case parseEnvConfig [] rest value of
             Inl e \<Rightarrow> Inl e
           | Inr sub \<Rightarrow> Inr (AList.update k (MapV sub) curCfg))
      | Some (MapV m) \<Rightarrow>
          (case parseEnvConfig m rest value of
             Inl e \<Rightarrow> Inl e
           | Inr sub \<Rightarrow> Inr (AList.update k (MapV sub) curCfg))
      | Some _ \<Rightarrow> Inl (Panic TypeAssertionPanic))"
proof -
  have i: "strIndex (k @ CHR ''_'' # rest) ''_'' = int (length k)"
    by (rule strIndex_first [OF assms])
  show ?thesis
    by (subst parseEnvConfig.simps)
       (simp add: i update_conv' AList.update_last split: option.splits val.splits sum.splits)
qed

text \<open>
  After a successful \<open>parseEnvConfig\<close> the coerced value stands at the end of the
  path made of the underscore-separated pieces of the key.
\<close>

lemma parseEnvConfig_leaf_at_path:
  "parseEnvConfig curCfg key value = Inr cfg' \<Longrightarrow>
   lookupPath cfg' (strSplit key (CHR ''_'')) = Some (specCoerce value)"
proof (induction key arbitrary: curCfg cfg' rule: length_induct)
  case (1 key)
  show ?case
  proof (cases "CHR ''_'' \<in> set key")
    case False
    then have "cfg' = AList.update key (specCoerce value) curCfg"
      using "1.prems" by (simp add: parseEnvConfig_leaf)
    then show ?thesis using False by (simp add: strSplit_absent update_conv')
  next
    case True
    then obtain k rest where key: "key = k @ CHR ''_'' # rest" and k: "CHR ''_'' \<notin> set k"
      by (auto dest: split_list_first)
    obtain r rs where rs: "strSplit rest (CHR ''_'') = r # rs"
      using strSplit_nonempty [of rest "CHR ''_''"] by (cases "strSplit rest (CHR ''_'')") auto
    have split: "strSplit key (CHR ''_'') = k # r # rs"
      using k by (simp add: key strSplit_no_sep rs)
    from "1.prems" obtain m sub where
      sub: "parseEnvConfig m rest value = Inr sub" and
      cfg': "cfg' = AList.update k (MapV sub) curCfg"
      unfolding key parseEnvConfig_node [OF k]
      by (auto split: option.splits val.splits sum.splits)
    have "length rest < length key" by (simp add: key)
    then have "lookupPath sub (strSplit rest (CHR ''_'')) = Some (specCoerce value)"
      using "1.IH" sub by blast
    then show ?thesis by (simp add: split cfg' update_conv' rs)
  qed
qed



text \<open>
  C7. For every environment value, the leaf that the scan stores is the integer when
  the whole value parses as a base-10 integer, else the boolean when it parses as a
  boolean, else the string itself: whenever \<open>parseEnvConfig\<close> returns, the value found
  along the key's path is \<open>specCoerce value\<close>. So \<open>42\<close> becomes the integer 42,
  \<open>true\<close> the boolean true, and \<open>hello\<close> stays a string.
\<close>

theorem env_leaf_coercion:
  "(\<forall>curCfg key value cfg'.
      parseEnvConfig curCfg key value = Inr cfg' \<longrightarrow>
      lookupPath cfg' (strSplit key (CHR ''_'')) = Some (specCoerce value)) \<and>
   specCoerce ''42'' = IntV 42 \<and> specCoerce ''true'' = BoolV True \<and>
   specCoerce ''hello'' = StrV ''hello'' \<and>
   readFromConfigEnv [''P_N=42'', ''P_T=true'', ''P_S=hello''] ''P_''
     = Inr [(''n'', IntV 42), (''t'', BoolV True), (''s'', StrV ''hello'')]"
proof (intro conjI allI impI)
  fix curCfg key "value" cfg'
  assume "parseEnvConfig curCfg key value = Inr cfg'"
  then show "lookupPath cfg' (strSplit key (CHR ''_'')) = Some (specCoerce value)"
    by (rule parseEnvConfig_leaf_at_path)
qed (simp_all add: specCoerce_def loader_eval string_eval)

theorem env_leaf_coercion_witness:
  "parseEnvConfig [] ''a_b'' ''42'' = Inr [(''a'', MapV [(''b'', IntV 42)])] \<and>
   lookupPath [(''a'', MapV [(''b'', IntV 42)])] (strSplit ''a_b'' (CHR ''_''))
     = Some (specCoerce ''42'')"
proof -
  have e: "parseEnvConfig [] ''a_b'' ''42'' = Inr [(''a'', MapV [(''b'', IntV 42)])]"
    by (simp add: loader_eval string_eval)
  have "\<forall>curCfg key value cfg'.
      parseEnvConfig curCfg key value = Inr cfg' \<longrightarrow>
      lookupPath cfg' (strSplit key (CHR ''_'')) = Some (specCoerce value)"
    using env_leaf_coercion by (rule conjunct1)
  with e show ?thesis by blast
qed

section \<open>The merge loop\<close>















section \<open>Fields that carry a tag\<close>

lemma strSplit_length_sep: "sep \<in> set s \<Longrightarrow> 2 \<le> length (strSplit s sep)"
proof (induction s)
  case Nil
  then show ?case by simp
next
  case (Cons c cs)
  show ?case
  proof (cases "c = sep")
    case True
    then show ?thesis using strSplit_nonempty [of cs sep]
      by (cases "strSplit cs sep") auto
  next
    case False
    then have "sep \<in> set cs" using Cons.prems by simp
    then have "2 \<le> length (strSplit cs sep)" by (rule Cons.IH)
    then show ?thesis using False by (cases "strSplit cs sep") auto
  qed
qed

lemma hasPrefix_yaml_colon: "hasPrefix tagPart ''yaml:'' \<Longrightarrow> CHR '':'' \<in> set tagPart"
proof -
  assume "hasPrefix tagPart ''yaml:''"
  then have "take (length ''yaml:'') tagPart = ''yaml:''" by (simp only: hasPrefix_def)
  then have "CHR '':'' \<in> set (take (length ''yaml:'') tagPart)" by simp
  then show ?thesis by (rule in_set_takeD)
qed

text \<open>\<open>getYAMLTag\<close> never panics: both index expressions are in range.\<close>

lemma getYAMLTagLoop_returns: "\<exists>t. getYAMLTagLoop parts = Inr t"
proof (induction parts)
  case Nil
  then show ?case by simp
next
  case (Cons tagPart rest)
  show ?case
  proof (cases "hasPrefix tagPart ''yaml:''")
    case True
    then have "2 \<le> length (strSplit tagPart (CHR '':''))"
      by (intro strSplit_length_sep hasPrefix_yaml_colon)
    then have one: "goIndex (strSplit tagPart (CHR '':'')) 1 = Inr (strSplit tagPart (CHR '':'') ! 1)"
      by (simp add: goIndex_def)
    have "\<And>c. 0 < length (strSplit c (CHR '',''))"
      using strSplit_nonempty by simp
    then show ?thesis using True one by (simp add: goIndex_def)
  next
    case False
    then show ?thesis using Cons.IH by simp
  qed
qed

lemma getYAMLTag_returns: "\<exists>t. getYAMLTag tag = Inr t"
  using getYAMLTagLoop_returns by (simp add: getYAMLTag_def)

text \<open>
  A named field that carries a tag and has a primitive type is a leaf: its segment is
  the yaml key of the tag, or the lower-cased first name when the tag gives none.
\<close>

lemma processField_tagged_primitive:
  assumes "isPrimitiveType ty" and "getYAMLTag tag = Inr yamlTag"
  shows "processField (AstField doc (n # ns) (Ident ty obj) (Some tag)) parentChain vars =
     Inr (vars @ [\<lparr>Chain = parentChain @
            [\<lparr>Name = (if yamlTag = [] then toLower n else yamlTag),
              Type = ty, Comment = fieldComment doc\<rparr>]\<rparr>])"
  using assms by simp

end
